theory Spec2Isabelle
  imports Main "HOL-Library.Finite_Map"
begin

section \<open>JavaScript values\<close>

text \<open>
  Function objects are references: two function values are the same function exactly when
  their references are equal. \<open>DefaultRender\<close> is \<open>StateProvider.prototype.defaultRender\<close>,
  \<open>ObjectProto n\<close> is the built-in method \<open>n\<close> that every object literal inherits from
  \<open>Object.prototype\<close>, \<open>ReducerFn n\<close> is the arrow function stored under key \<open>n\<close> of the README's
  reducer table, and \<open>Ref i\<close> is any other function object (a presenter, a handler closure).
\<close>

datatype fref = DefaultRender | ObjectProto string | ReducerFn string | Ref nat

text \<open>
  Objects are finite maps from property names to values (own enumerable properties), so
  equality of two \<open>Obj\<close> values is deep equality. Numbers are modelled as integers together
  with \<open>NaN\<close>; only their truthiness is used.
\<close>

datatype jsval =
    Undefined
  | Null
  | Bool bool
  | Num int
  | NaN
  | Str string
  | Fun fref
  | Obj "(string, jsval) fmap"

type_synonym obj = "(string, jsval) fmap"

datatype error = TypeError | InvariantViolation | Thrown jsval

text \<open>The behaviour of the function objects the model does not define itself (presenters,
  updaters, built-ins) is a parameter: the host maps a reference and an argument list to the
  value returned or the error thrown.\<close>

type_synonym host = "fref \<Rightarrow> jsval list \<Rightarrow> error + jsval"

text \<open>JavaScript truthiness: \<open>undefined\<close>, \<open>null\<close>, \<open>false\<close>, \<open>0\<close>, \<open>NaN\<close> and the empty
  string are falsy, every object and every function is truthy.\<close>

fun truthy :: "jsval \<Rightarrow> bool" where
  "truthy Undefined = False"
| "truthy Null = False"
| "truthy (Bool b) = b"
| "truthy (Num n) = (n \<noteq> 0)"
| "truthy NaN = False"
| "truthy (Str s) = (s \<noteq> [])"
| "truthy (Fun f) = True"
| "truthy (Obj m) = True"

text \<open>\<open>a || b\<close>\<close>

definition js_or :: "jsval \<Rightarrow> jsval \<Rightarrow> jsval" where
  "js_or a b = (if truthy a then a else b)"

text \<open>\<open>o.k\<close> on a plain object whose key is not an inherited name: the own property, or
  \<open>undefined\<close>.\<close>

definition js_get :: "obj \<Rightarrow> string \<Rightarrow> jsval" where
  "js_get m k = (case fmlookup m k of None \<Rightarrow> Undefined | Some v \<Rightarrow> v)"

text \<open>Decimal numerals, for the index keys of a string.\<close>

fun show_nat :: "nat \<Rightarrow> string" where
  "show_nat n =
     (if n < 10 then [char_of (48 + n)]
      else show_nat (n div 10) @ [char_of (48 + n mod 10)])"

declare show_nat.simps [simp del]

text \<open>
  The own enumerable properties that \<open>{...v}\<close> and \<open>Object.assign\<close> copy out of a value:
  all properties of an object, the indexed characters of a string, nothing for
  \<open>undefined\<close>, \<open>null\<close>, booleans and numbers. Function objects are taken to carry no
  enumerable property of their own.
\<close>

fun own_props :: "jsval \<Rightarrow> obj" where
  "own_props (Obj m) = m"
| "own_props (Str s) = fmap_of_list (zip (map show_nat [0..<length s]) (map (\<lambda>c. Str [c]) s))"
| "own_props _ = fmempty"

text \<open>Calling a value: anything but a function throws a \<open>TypeError\<close>; \<open>defaultRender\<close> of
  the base class returns \<open>null\<close>; every other function is the host's.\<close>

definition call :: "host \<Rightarrow> jsval \<Rightarrow> jsval list \<Rightarrow> error + jsval" where
  "call app f args =
     (case f of
        Fun DefaultRender \<Rightarrow> Inr Null
      | Fun r \<Rightarrow> app r args
      | _ \<Rightarrow> Inl TypeError)"

section \<open>StateProvider\<close>

text \<open>
  A container type is a class extending \<open>StateProvider\<close>: its name and what it makes of the
  three overridable members. The getter \<open>handlers\<close> builds fresh closures every time it is
  evaluated, so its value is a function of how many times it was evaluated before on the
  instance.
\<close>

record container =
  cname :: string
  initialState :: jsval
  handlers :: "nat \<Rightarrow> jsval"
  defaultRender :: jsval

definition StateProvider :: container where
  "StateProvider =
     \<lparr> cname = ''StateProvider'',
       initialState = Obj fmempty,
       handlers = (\<lambda>_. Obj fmempty),
       defaultRender = Fun DefaultRender \<rparr>"

text \<open>
  An instance: its class, \<open>this.props\<close>, \<open>this.state\<close>, \<open>this._handlers\<close>, \<open>this.context\<close>
  (assigned by the host), and a counter of the evaluations of the getter \<open>handlers\<close>.
\<close>

record inst =
  cls :: container
  props :: obj
  state :: jsval
  stored_handlers :: jsval
  this_context :: jsval
  handler_evals :: nat

text \<open>Reading \<open>this.handlers\<close>: the getter runs once more.\<close>

definition get_handlers :: "inst \<Rightarrow> jsval \<times> inst" where
  "get_handlers i =
     (handlers (cls i) (handler_evals i), i\<lparr> handler_evals := Suc (handler_evals i) \<rparr>)"

text \<open>The constructor. \<open>ctx\<close> is the context the host gives the instance.\<close>

definition construct :: "container \<Rightarrow> obj \<Rightarrow> jsval \<Rightarrow> inst" where
  "construct c ps ctx =
     (let i0 = \<lparr> cls = c, props = ps, state = Undefined, stored_handlers = Undefined,
                 this_context = ctx, handler_evals = 0 \<rparr>;
          i1 = i0\<lparr> state := js_or (js_get ps ''initialState'') (initialState c) \<rparr>;
          (h, i2) = get_handlers i1
      in i2\<lparr> stored_handlers := h \<rparr>)"

text \<open>\<open>otherProps\<close>: the rest of \<open>this.props\<close> after \<open>children\<close>, \<open>render\<close> and
  \<open>initialState\<close> are taken out.\<close>

definition otherProps :: "obj \<Rightarrow> obj" where
  "otherProps ps = fmdrop ''children'' (fmdrop ''render'' (fmdrop ''initialState'' ps))"

text \<open>\<open>{ ...otherProps, ...this.state, ...this._handlers }\<close>\<close>

definition payload :: "inst \<Rightarrow> obj" where
  "payload i =
     otherProps (props i) ++\<^sub>f own_props (state i) ++\<^sub>f own_props (stored_handlers i)"

text \<open>\<open>children || renderProp || this.defaultRender\<close>\<close>

definition renderer :: "inst \<Rightarrow> jsval" where
  "renderer i =
     js_or (js_or (js_get (props i) ''children'') (js_get (props i) ''render''))
           (defaultRender (cls i))"

definition render :: "host \<Rightarrow> inst \<Rightarrow> error + jsval" where
  "render app i = call app (renderer i) [Obj (payload i), this_context i]"

section \<open>The host: mounting, state updates, an instance's lifetime\<close>

text \<open>
  Modelled from the spec: the merge step of \<open>requestMutation\<close>, which is \<open>setState\<close> of the
  host's component base class and not part of the sources. The partial state is
  shallow-merged into the current state (\<open>Object.assign({}, state, partial)\<close>); a \<open>null\<close> or
  \<open>undefined\<close> partial state changes nothing.
\<close>

definition merge_state :: "inst \<Rightarrow> jsval \<Rightarrow> inst" where
  "merge_state i partial =
     (if partial = Null \<or> partial = Undefined then i
      else i\<lparr> state := Obj (own_props (state i) ++\<^sub>f own_props partial) \<rparr>)"

text \<open>
  Modelled from the spec: \<open>requestMutation\<close> itself (the host's \<open>setState\<close>, not part of the
  sources): it shallow-merges the partial state into the current state. As the host
  documents, an updater function is first called with the current state and the props and
  its result is merged, and a partial state that is neither an object, a function, \<open>null\<close>
  nor \<open>undefined\<close> is rejected.
\<close>

definition setState :: "host \<Rightarrow> inst \<Rightarrow> jsval \<Rightarrow> error + inst" where
  "setState app i partial =
     (case partial of
        Obj m \<Rightarrow> Inr (merge_state i partial)
      | Null \<Rightarrow> Inr (merge_state i partial)
      | Undefined \<Rightarrow> Inr (merge_state i partial)
      | Fun f \<Rightarrow>
          (case call app partial [state i, Obj (props i)] of
             Inl e \<Rightarrow> Inl e
           | Inr p \<Rightarrow> Inr (merge_state i p))
      | _ \<Rightarrow> Inl InvariantViolation)"

text \<open>
  What happens to a mounted instance: the host renders it, a handler requests a state
  update, or the parent hands it new props. \<open>run\<close> follows a sequence of such events and
  returns the final instance together with the first argument given to the rendering
  function at each render, in order. A rejected update leaves the instance as it was.
\<close>

datatype event = DoRender | DoSetState jsval | DoReceiveProps obj

fun run :: "host \<Rightarrow> inst \<Rightarrow> event list \<Rightarrow> inst \<times> jsval list" where
  "run app i [] = (i, [])"
| "run app i (DoRender # es) =
     (fst (run app i es), Obj (payload i) # snd (run app i es))"
| "run app i (DoSetState p # es) =
     (case setState app i p of
        Inr i' \<Rightarrow> run app i' es
      | Inl e \<Rightarrow> run app i es)"
| "run app i (DoReceiveProps ps # es) = run app (i\<lparr> props := ps \<rparr>) es"

fun is_render :: "event \<Rightarrow> bool" where
  "is_render DoRender = True"
| "is_render _ = False"

fun is_setState :: "event \<Rightarrow> bool" where
  "is_setState (DoSetState p) = True"
| "is_setState _ = False"

section \<open>withRender\<close>

text \<open>
  The two kinds of function \<open>withRender\<close> returns, as data: \<open>Bound C\<close> is
  \<open>withRender.bind(undefined, C)\<close>, and \<open>Combined C P d\<close> is the arrow function \<open>Combined\<close>
  closed over \<open>C\<close> and \<open>P\<close>, with \<open>displayName\<close> \<open>d\<close>. An element is what a JSX expression
  evaluates to: a component type and its props.
\<close>

datatype closure = Bound container | Combined container jsval string

record element =
  el_type :: container
  el_props :: obj

datatype result = RClosure closure | RElement element

text \<open>
  A JSX expression is a call of the host's \<open>React.createElement(type, config)\<close>. The props
  of the element are the own properties of \<open>config\<close> but for the names the host reserves to
  itself, \<open>key\<close>, \<open>ref\<close>, \<open>__self\<close> and \<open>__source\<close>, which never reach a component's props.
  (No child is written inside the JSX tag, so \<open>children\<close> is the one of \<open>config\<close>, and the
  container types here define no \<open>defaultProps\<close>.)
\<close>

definition reserved_props :: "string list" where
  "reserved_props = [''key'', ''ref'', ''__self'', ''__source'']"

definition createElement :: "container \<Rightarrow> obj \<Rightarrow> element" where
  "createElement ty config =
     \<lparr> el_type = ty, el_props = fmfilter (\<lambda>k. k \<notin> set reserved_props) config \<rparr>"

text \<open>\<open>nm P\<close> stands for the text of \<open>${Presenter.name}\<close>, which is the host's to say. A call
  with the second argument left out is a call with \<open>Undefined\<close>.\<close>

definition withRender :: "(jsval \<Rightarrow> string) \<Rightarrow> container \<Rightarrow> jsval \<Rightarrow> closure" where
  "withRender nm C P =
     (if \<not> truthy P then Bound C
      else Combined C P (cname C @ ''('' @ nm P @ '')''))"

text \<open>Calling a returned function with one argument. \<open>Combined\<close> evaluates
  \<open><Container render={Presenter} {...props} />\<close>, which is
  \<open>React.createElement(Container, {render: Presenter, ...props})\<close>.\<close>

fun apply_closure :: "(jsval \<Rightarrow> string) \<Rightarrow> closure \<Rightarrow> jsval \<Rightarrow> result" where
  "apply_closure nm (Bound C) a = RClosure (withRender nm C a)"
| "apply_closure nm (Combined C P d) a =
     RElement (createElement C (fmupd ''render'' P fmempty ++\<^sub>f own_props a))"

text \<open>The host mounts an element: it constructs the instance and renders it.\<close>

definition mount :: "host \<Rightarrow> element \<Rightarrow> jsval \<Rightarrow> error + jsval" where
  "mount app el ctx = render app (construct (el_type el) (el_props el) ctx)"

text \<open>Rendering what a component returned; \<open>None\<close> when it returned a function, which is
  no element and mounts no container.\<close>

fun render_result :: "host \<Rightarrow> jsval \<Rightarrow> result \<Rightarrow> (error + jsval) option" where
  "render_result app ctx (RElement el) = Some (mount app el ctx)"
| "render_result app ctx (RClosure f) = None"

section \<open>The containers of the README\<close>

text \<open>\<open>SimpleState\<close>: default state \<open>{foo: "bar"}\<close>, one handler \<open>set\<close>, a fresh arrow function
  at each evaluation of the getter.\<close>

definition SimpleState :: container where
  "SimpleState =
     \<lparr> cname = ''SimpleState'',
       initialState = Obj (fmap_of_list [(''foo'', Str ''bar'')]),
       handlers = (\<lambda>n. Obj (fmap_of_list [(''set'', Fun (Ref n))])),
       defaultRender = Fun DefaultRender \<rparr>"

text \<open>
  \<open>Reducer\<close>: the table \<open>reducer\<close> of three arrow functions, and the handler \<open>action\<close>.
  \<open>reducer[type]\<close> finds an own entry, or else what an object literal inherits from
  \<open>Object.prototype\<close>: its built-in methods, and the prototype object itself under
  \<open>__proto__\<close>.
\<close>

definition reducer :: obj where
  "reducer = fmap_of_list
     [(''foo:update'', Fun (ReducerFn ''foo:update'')),
      (''bar:inc'', Fun (ReducerFn ''bar:inc'')),
      (''bar:dec'', Fun (ReducerFn ''bar:dec''))]"

definition object_prototype_methods :: "string list" where
  "object_prototype_methods =
     [''constructor'', ''hasOwnProperty'', ''isPrototypeOf'', ''propertyIsEnumerable'',
      ''toLocaleString'', ''toString'', ''valueOf'', ''__defineGetter__'',
      ''__defineSetter__'', ''__lookupGetter__'', ''__lookupSetter__'']"

definition reducer_get :: "string \<Rightarrow> jsval" where
  "reducer_get ty =
     (case fmlookup reducer ty of
        Some f \<Rightarrow> f
      | None \<Rightarrow>
          if ty = ''__proto__'' then Obj fmempty
          else if ty \<in> set object_prototype_methods then Fun (ObjectProto ty)
          else Undefined)"

definition action :: "host \<Rightarrow> inst \<Rightarrow> string \<Rightarrow> jsval \<Rightarrow> error + inst" where
  "action app i ty pl =
     (if \<not> truthy (reducer_get ty) then setState app i (Obj fmempty)
      else (case call app (reducer_get ty) [pl] of
              Inl e \<Rightarrow> Inl e
            | Inr p \<Rightarrow> setState app i p))"

definition Reducer :: container where
  "Reducer =
     \<lparr> cname = ''Reducer'',
       initialState = Obj fmempty,
       handlers = (\<lambda>n. Obj (fmap_of_list [(''action'', Fun (Ref n))])),
       defaultRender = Fun DefaultRender \<rparr>"

section \<open>A host for concrete runs\<close>

text \<open>A host whose every function reports how it was called: which function it is and
  what its first argument was.\<close>

definition probe :: host where
  "probe r args =
     Inr (Obj (fmap_of_list
       [(''callee'', Fun r), (''arg'', (case args of [] \<Rightarrow> Undefined | a # _ \<Rightarrow> a))]))"

text \<open>A host in which no value has a name to show.\<close>

definition no_name :: "jsval \<Rightarrow> string" where
  "no_name v = []"

section \<open>Concrete inputs\<close>

text \<open>The props of the README's \<open>SimpleState\<close> example, with two more properties that
  collide with a state key and a handler key.\<close>

definition example_props :: obj where
  "example_props = fmap_of_list
     [(''initialState'', Obj (fmap_of_list [(''foo'', Str ''baz'')])),
      (''other'', Num 1), (''foo'', Str ''prop''), (''set'', Null)]"

text \<open>Three renders with two state updates in between; the second update writes the state
  key \<open>set\<close>, which is also a handler name.\<close>

definition example_events :: "event list" where
  "example_events =
     [DoRender, DoSetState (Obj (fmap_of_list [(''foo'', Str ''x'')])), DoRender,
      DoSetState (Obj (fmap_of_list [(''set'', Null)])), DoRender]"

text \<open>Input properties that carry a \<open>render\<close> of the caller's own.\<close>

definition caller_render :: jsval where
  "caller_render = Obj (fmap_of_list [(''render'', Fun (Ref 2))])"

text \<open>Input properties that carry a \<open>key\<close> beside an ordinary property.\<close>

definition keyed_props :: jsval where
  "keyed_props = Obj (fmap_of_list [(''key'', Num 7), (''other'', Num 1)])"

text \<open>A render, new props from the parent, a render: first with the passed-through
  property \<open>other\<close> changed, then with only \<open>render\<close> changed.\<close>

definition changed_props_events :: "event list" where
  "changed_props_events =
     [DoRender, DoReceiveProps (fmap_of_list [(''other'', Num 2)]), DoRender]"

definition same_props_events :: "event list" where
  "same_props_events =
     [DoReceiveProps (fmap_of_list [(''other'', Num 1), (''render'', Fun (Ref 5))])]"

text \<open>\<open><Reducer initialState={{ foo: "", bar: 0 }}>\<close>\<close>

definition reducer_instance :: inst where
  "reducer_instance =
     construct Reducer
       (fmap_of_list [(''initialState'', Obj (fmap_of_list [(''foo'', Str []), (''bar'', Num 0)]))])
       Undefined"

section \<open>Lookups in merged objects\<close>

lemma fmlookup_add_case:
  "fmlookup (m ++\<^sub>f n) k = (case fmlookup n k of Some v \<Rightarrow> Some v | None \<Rightarrow> fmlookup m k)"
  by (cases "fmlookup n k") (auto simp: fmdom_notI fmdomI)

lemma fmlookup_add3:
  "fmlookup (a ++\<^sub>f b ++\<^sub>f c) k =
     (case fmlookup c k of
        Some h \<Rightarrow> Some h
      | None \<Rightarrow> (case fmlookup b k of Some s \<Rightarrow> Some s | None \<Rightarrow> fmlookup a k))"
proof (cases "fmlookup c k")
  case None
  then show ?thesis by (cases "fmlookup b k") (simp_all add: fmdom_notI fmdomI)
next
  case (Some h)
  then show ?thesis by (simp add: fmdomI)
qed

lemma fmap_neqI: "fmlookup m k \<noteq> fmlookup n k \<Longrightarrow> m \<noteq> n"
  by auto

lemma fmlookup_otherProps:
  "fmlookup (otherProps ps) k =
     (if k = ''children'' \<or> k = ''render'' \<or> k = ''initialState'' then None else fmlookup ps k)"
  by (simp add: otherProps_def)

lemma composed_props_lookup:
  "fmlookup (fmupd ''render'' P fmempty ++\<^sub>f m) k =
     (if k = ''render'' then (case fmlookup m ''render'' of Some r \<Rightarrow> Some r | None \<Rightarrow> Some P)
      else fmlookup m k)"
  by (simp add: fmlookup_add_case del: fmlookup_add split: option.split)

lemma composed_props_forced:
  "fmlookup m ''render'' = None \<Longrightarrow> fmupd ''render'' P fmempty ++\<^sub>f m = fmupd ''render'' P m"
  by (rule fmap_ext) (auto simp add: composed_props_lookup simp del: fmlookup_add)

section \<open>Construction and rendering\<close>

lemma construct_simps:
  "cls (construct c ps ctx) = c"
  "props (construct c ps ctx) = ps"
  "state (construct c ps ctx) = js_or (js_get ps ''initialState'') (initialState c)"
  "stored_handlers (construct c ps ctx) = handlers c 0"
  "this_context (construct c ps ctx) = ctx"
  "handler_evals (construct c ps ctx) = Suc 0"
  by (simp_all add: construct_def get_handlers_def Let_def)

lemma payload_has_handlers:
  "fmlookup (own_props (stored_handlers i)) k = Some h \<Longrightarrow> fmlookup (payload i) k = Some h"
  by (simp add: payload_def fmdomI)

lemma render_children:
  assumes "truthy (js_get (props i) ''children'')"
  shows "render app i = call app (js_get (props i) ''children'') [Obj (payload i), this_context i]"
  using assms by (simp add: render_def renderer_def js_or_def)

text \<open>
  C1: on every render the rendering function receives, as its first argument, the merge of
  the passed-through props (all props but \<open>children\<close>, \<open>render\<close>, \<open>initialState\<close>), then the
  state, then the stored handlers; at every key a handler value overrides a state value,
  which overrides a passed-through prop.
\<close>

theorem render_payload_merge:
  "render app i = call app (renderer i) [Obj (payload i), this_context i]
   \<and> payload i = otherProps (props i) ++\<^sub>f own_props (state i) ++\<^sub>f own_props (stored_handlers i)
   \<and> fmlookup (payload i) k =
       (case fmlookup (own_props (stored_handlers i)) k of
          Some h \<Rightarrow> Some h
        | None \<Rightarrow>
           (case fmlookup (own_props (state i)) k of
              Some s \<Rightarrow> Some s
            | None \<Rightarrow>
               if k = ''children'' \<or> k = ''render'' \<or> k = ''initialState'' then None
               else fmlookup (props i) k))"
proof -
  have "fmlookup (payload i) k =
       (case fmlookup (own_props (stored_handlers i)) k of
          Some h \<Rightarrow> Some h
        | None \<Rightarrow>
           (case fmlookup (own_props (state i)) k of
              Some s \<Rightarrow> Some s
            | None \<Rightarrow> fmlookup (otherProps (props i)) k))"
    unfolding payload_def by (rule fmlookup_add3)
  then show ?thesis
    by (simp only: fmlookup_otherProps render_def payload_def)
qed

text \<open>The README's example: the state key \<open>foo\<close> overrides the prop \<open>foo\<close>, the handler
  \<open>set\<close> overrides the prop \<open>set\<close>, \<open>other\<close> passes through and \<open>initialState\<close> does not.\<close>

theorem render_payload_merge_witness:
  "fmlookup (payload (construct SimpleState example_props Undefined)) ''foo'' = Some (Str ''baz'')
   \<and> fmlookup (payload (construct SimpleState example_props Undefined)) ''set'' = Some (Fun (Ref 0))
   \<and> fmlookup (payload (construct SimpleState example_props Undefined)) ''other'' = Some (Num 1)
   \<and> fmlookup (payload (construct SimpleState example_props Undefined)) ''initialState'' = None"
  using render_payload_merge [of probe "construct SimpleState example_props Undefined" "''foo''"]
        render_payload_merge [of probe "construct SimpleState example_props Undefined" "''set''"]
        render_payload_merge [of probe "construct SimpleState example_props Undefined" "''other''"]
        render_payload_merge [of probe "construct SimpleState example_props Undefined" "''initialState''"]
  by (simp add: construct_simps example_props_def SimpleState_def js_or_def js_get_def)

text \<open>
  C3, as amended: construction sets the state to the \<open>initialState\<close> prop when that prop is
  truthy, which every object is, the empty one included, and otherwise to the class's
  default state. With no \<open>initialState\<close> prop and the default not overridden the state is
  the empty object; an object \<open>S\<close> given as \<open>initialState\<close> is the state whatever the
  default.
\<close>

theorem construct_state:
  "state (construct c ps ctx) =
     (if truthy (js_get ps ''initialState'') then js_get ps ''initialState'' else initialState c)
   \<and> (fmlookup ps ''initialState'' = None \<longrightarrow> initialState c = Obj fmempty
        \<longrightarrow> state (construct c ps ctx) = Obj fmempty)
   \<and> (fmlookup ps ''initialState'' = None
        \<longrightarrow> state (construct StateProvider ps ctx) = Obj fmempty)
   \<and> (fmlookup ps ''initialState'' = Some (Obj S) \<longrightarrow> state (construct c ps ctx) = Obj S)"
  by (simp add: construct_simps js_or_def js_get_def StateProvider_def)

theorem construct_state_witness:
  "state (construct SimpleState
       (fmap_of_list [(''initialState'', Obj (fmap_of_list [(''foo'', Str ''baz'')]))]) Undefined)
     = Obj (fmap_of_list [(''foo'', Str ''baz'')])
   \<and> state (construct StateProvider fmempty Undefined) = Obj fmempty
   \<and> state (construct SimpleState (fmap_of_list [(''initialState'', Null)]) Undefined)
     = Obj (fmap_of_list [(''foo'', Str ''bar'')])"
  using construct_state [of SimpleState
          "fmap_of_list [(''initialState'', Obj (fmap_of_list [(''foo'', Str ''baz'')]))]"
          Undefined "fmap_of_list [(''foo'', Str ''baz'')]"]
    construct_state [of StateProvider fmempty Undefined fmempty]
    construct_state [of SimpleState "fmap_of_list [(''initialState'', Null)]" Undefined fmempty]
  by (simp add: js_get_def SimpleState_def StateProvider_def)

text \<open>
  C3 as stated fails for an \<open>initialState\<close> that is present and empty: \<open>{}\<close> is truthy, so
  \<open>SimpleState\<close> constructed with \<open>initialState = {}\<close> has the state \<open>{}\<close> and not its default
  \<open>{foo: "bar"}\<close>.
\<close>

theorem construct_empty_initialState_counterexample:
  "fmlookup (fmap_of_list [(''initialState'', Obj fmempty)]) ''initialState'' = Some (Obj fmempty)
   \<and> state (construct SimpleState (fmap_of_list [(''initialState'', Obj fmempty)]) Undefined)
       = Obj fmempty
   \<and> state (construct SimpleState (fmap_of_list [(''initialState'', Obj fmempty)]) Undefined)
       \<noteq> initialState SimpleState"
  by (simp add: construct_simps js_or_def js_get_def SimpleState_def)

text \<open>
  C5: the rendering target is \<open>children\<close> if truthy, else the \<open>render\<close> prop if truthy, else
  the class's \<open>defaultRender\<close>; with neither supplied and \<open>defaultRender\<close> not overridden the
  render does not fail and returns \<open>null\<close>.
\<close>

theorem render_target_priority:
  "renderer i =
     (if truthy (js_get (props i) ''children'') then js_get (props i) ''children''
      else if truthy (js_get (props i) ''render'') then js_get (props i) ''render''
      else defaultRender (cls i))
   \<and> render app i = call app (renderer i) [Obj (payload i), this_context i]
   \<and> (\<not> truthy (js_get (props i) ''children'') \<longrightarrow> \<not> truthy (js_get (props i) ''render'')
        \<longrightarrow> defaultRender (cls i) = Fun DefaultRender \<longrightarrow> render app i = Inr Null)
   \<and> (fmlookup ps ''children'' = None \<longrightarrow> fmlookup ps ''render'' = None
        \<longrightarrow> render app (construct StateProvider ps ctx) = Inr Null)"
  by (simp add: renderer_def render_def js_or_def call_def construct_simps js_get_def
        StateProvider_def)

theorem render_target_priority_witness:
  "render probe (construct StateProvider fmempty Undefined) = Inr Null
   \<and> renderer (construct StateProvider
        (fmap_of_list [(''children'', Fun (Ref 1)), (''render'', Fun (Ref 2))]) Undefined)
       = Fun (Ref 1)
   \<and> renderer (construct StateProvider (fmap_of_list [(''render'', Fun (Ref 2))]) Undefined)
       = Fun (Ref 2)"
  using render_target_priority [of "construct StateProvider fmempty Undefined" probe fmempty
          Undefined]
    render_target_priority [of "construct StateProvider
        (fmap_of_list [(''children'', Fun (Ref 1)), (''render'', Fun (Ref 2))]) Undefined"
          probe fmempty Undefined]
    render_target_priority [of
        "construct StateProvider (fmap_of_list [(''render'', Fun (Ref 2))]) Undefined"
          probe fmempty Undefined]
  by (simp add: construct_simps js_get_def StateProvider_def)

section \<open>The lifetime of an instance\<close>

lemma merge_state_keeps:
  "stored_handlers (merge_state i p) = stored_handlers i"
  "handler_evals (merge_state i p) = handler_evals i"
  "cls (merge_state i p) = cls i"
  "props (merge_state i p) = props i"
  by (simp_all add: merge_state_def)

lemma setState_keeps:
  assumes "setState app i p = Inr j"
  shows "stored_handlers j = stored_handlers i \<and> handler_evals j = handler_evals i
         \<and> cls j = cls i"
  using assms
  by (auto simp: setState_def merge_state_keeps split: jsval.splits sum.splits)

lemma run_keeps:
  "stored_handlers (fst (run app i es)) = stored_handlers i
   \<and> handler_evals (fst (run app i es)) = handler_evals i
   \<and> cls (fst (run app i es)) = cls i"
proof (induction es arbitrary: i)
  case Nil
  show ?case by simp
next
  case (Cons e es)
  show ?case
  proof (cases e)
    case DoRender
    then show ?thesis using Cons.IH [of i] by simp
  next
    case (DoSetState p)
    show ?thesis
    proof (cases "setState app i p")
      case (Inl err)
      then show ?thesis using DoSetState Cons.IH [of i] by simp
    next
      case (Inr j)
      then show ?thesis using DoSetState Cons.IH [of j] setState_keeps [OF Inr] by simp
    qed
  next
    case (DoReceiveProps ps)
    then show ?thesis using Cons.IH [of "i\<lparr>props := ps\<rparr>"] by simp
  qed
qed

lemma run_trace_handlers:
  "p \<in> set (snd (run app i es)) \<Longrightarrow> fmlookup (own_props (stored_handlers i)) k = Some h
   \<Longrightarrow> fmlookup (own_props p) k = Some h"
proof (induction es arbitrary: i)
  case Nil
  then show ?case by simp
next
  case (Cons e es)
  show ?case
  proof (cases e)
    case DoRender
    then have "p = Obj (payload i) \<or> p \<in> set (snd (run app i es))"
      using Cons.prems(1) by auto
    then show ?thesis
      using Cons.IH [of i] Cons.prems(2) payload_has_handlers [of i k h] by auto
  next
    case (DoSetState q)
    show ?thesis
    proof (cases "setState app i q")
      case (Inl err)
      then show ?thesis using DoSetState Cons.IH [of i] Cons.prems by simp
    next
      case (Inr j)
      then show ?thesis
        using DoSetState Cons.IH [of j] Cons.prems setState_keeps [OF Inr] by simp
    qed
  next
    case (DoReceiveProps ps)
    then show ?thesis using Cons.IH [of "i\<lparr>props := ps\<rparr>"] Cons.prems by simp
  qed
qed

lemma run_trace_length: "length (snd (run app i es)) = length (filter is_render es)"
proof (induction es arbitrary: i)
  case Nil
  show ?case by simp
next
  case (Cons e es)
  show ?case
  proof (cases e)
    case DoRender
    then show ?thesis using Cons.IH [of i] by simp
  next
    case (DoSetState q)
    then show ?thesis using Cons.IH by (cases "setState app i q") simp_all
  next
    case (DoReceiveProps ps)
    then show ?thesis using Cons.IH by simp
  qed
qed

lemma run_append:
  "snd (run app i (es1 @ es2)) = snd (run app i es1) @ snd (run app (fst (run app i es1)) es2)"
proof (induction es1 arbitrary: i)
  case Nil
  show ?case by simp
next
  case (Cons e es)
  show ?case
  proof (cases e)
    case DoRender
    then show ?thesis using Cons.IH [of i] by simp
  next
    case (DoSetState q)
    then show ?thesis using Cons.IH by (cases "setState app i q") simp_all
  next
    case (DoReceiveProps ps)
    then show ?thesis using Cons.IH by simp
  qed
qed

text \<open>
  C4: the getter \<open>handlers\<close> is evaluated once, by the constructor, and its value is stored.
  Whatever happens to the instance afterwards (renders, state updates, new props), the
  stored handlers stay the value of that first evaluation, the getter is not evaluated
  again, and each of the N renders hands every handler to the rendering function under
  its name, the same function each time.
\<close>

theorem handlers_computed_once:
  "stored_handlers (construct c ps ctx) = handlers c 0
   \<and> handler_evals (construct c ps ctx) = 1
   \<and> stored_handlers (fst (run app (construct c ps ctx) es)) = handlers c 0
   \<and> handler_evals (fst (run app (construct c ps ctx) es)) = 1
   \<and> length (snd (run app (construct c ps ctx) es)) = length (filter is_render es)
   \<and> (\<forall>p \<in> set (snd (run app (construct c ps ctx) es)). \<forall>k h.
         fmlookup (own_props (handlers c 0)) k = Some h \<longrightarrow> fmlookup (own_props p) k = Some h)"
  using run_keeps [of app "construct c ps ctx" es]
        run_trace_handlers [of _ app "construct c ps ctx" es]
        run_trace_length [of app "construct c ps ctx" es]
  by (simp add: construct_simps)

theorem handlers_computed_once_witness:
  "stored_handlers (fst (run probe (construct SimpleState fmempty Undefined) example_events))
     = Obj (fmap_of_list [(''set'', Fun (Ref 0))])
   \<and> handler_evals (fst (run probe (construct SimpleState fmempty Undefined) example_events)) = 1
   \<and> length (snd (run probe (construct SimpleState fmempty Undefined) example_events)) = 3
   \<and> fmlookup (own_props
         (snd (run probe (construct SimpleState fmempty Undefined) example_events) ! 0)) ''set''
       = Some (Fun (Ref 0))
   \<and> fmlookup (own_props
         (snd (run probe (construct SimpleState fmempty Undefined) example_events) ! 2)) ''set''
       = Some (Fun (Ref 0))"
  using handlers_computed_once [of SimpleState fmempty Undefined probe example_events]
  by (simp add: example_events_def SimpleState_def construct_simps setState_def merge_state_def
        payload_def otherProps_def js_or_def js_get_def)

lemma run_state_keeps:
  "filter is_setState es = [] \<Longrightarrow> state (fst (run app i es)) = state i"
proof (induction es arbitrary: i)
  case Nil
  show ?case by simp
next
  case (Cons e es)
  show ?case
  proof (cases e)
    case DoRender
    then show ?thesis using Cons.IH [of i] Cons.prems by simp
  next
    case (DoSetState p)
    then show ?thesis using Cons.prems by simp
  next
    case (DoReceiveProps ps)
    then show ?thesis using Cons.IH [of "i\<lparr>props := ps\<rparr>"] Cons.prems by simp
  qed
qed

lemma payload_cong:
  "otherProps (props j') = otherProps (props j) \<Longrightarrow> state j' = state j
   \<Longrightarrow> stored_handlers j' = stored_handlers j \<Longrightarrow> payload j' = payload j"
  by (simp add: payload_def)

text \<open>
  C8, as amended: two consecutive renders of an instance between which there is no state
  update, and between which the passed-through props (the props but for \<open>children\<close>,
  \<open>render\<close> and \<open>initialState\<close>) stay the same, hand the rendering function equal
  objects, wherever in the instance's lifetime they happen: the payloads number \<open>n\<close> and
  \<open>n + 1\<close>, where \<open>n\<close> renders came before, are the same value. New props may arrive in
  between, as long as the passed-through ones are unchanged.
\<close>

theorem consecutive_renders_equal:
  "filter is_render mid = [] \<Longrightarrow> filter is_setState mid = [] \<Longrightarrow>
   otherProps (props (fst (run app (fst (run app i es1)) mid)))
     = otherProps (props (fst (run app i es1))) \<Longrightarrow>
   length (filter is_render es1) + 1
     < length (snd (run app i (es1 @ DoRender # mid @ DoRender # es2)))
   \<and> snd (run app i (es1 @ DoRender # mid @ DoRender # es2)) ! length (filter is_render es1)
     = snd (run app i (es1 @ DoRender # mid @ DoRender # es2)) ! (length (filter is_render es1) + 1)
   \<and> snd (run app i (es1 @ DoRender # mid @ DoRender # es2)) ! length (filter is_render es1)
     = Obj (payload (fst (run app i es1)))
   \<and> snd (run app i (es1 @ DoRender # mid @ DoRender # es2)) ! (length (filter is_render es1) + 1)
     = Obj (payload (fst (run app (fst (run app i es1)) mid)))"
proof -
  assume nr: "filter is_render mid = []" and ns: "filter is_setState mid = []"
  let ?j = "fst (run app i es1)"
  let ?j' = "fst (run app ?j mid)"
  let ?n = "length (filter is_render es1)"
  assume op: "otherProps (props ?j') = otherProps (props ?j)"
  have mid: "snd (run app ?j mid) = []"
    using run_trace_length [of app ?j mid] nr by simp
  have tr: "snd (run app i (es1 @ DoRender # mid @ DoRender # es2))
        = snd (run app i es1) @ Obj (payload ?j) # Obj (payload ?j') # snd (run app ?j' es2)"
    by (simp add: run_append mid)
  have len: "length (snd (run app i es1)) = ?n" by (rule run_trace_length)
  have st: "state ?j' = state ?j" using ns by (rule run_state_keeps)
  have hs: "stored_handlers ?j' = stored_handlers ?j" using run_keeps [of app ?j mid] by simp
  have eq: "payload ?j' = payload ?j" using op st hs by (rule payload_cong)
  show ?thesis
    unfolding tr using len eq by (simp add: nth_append)
qed

theorem consecutive_renders_equal_witness:
  "snd (run probe (construct SimpleState (fmap_of_list [(''other'', Num 1)]) Undefined)
          ([] @ DoRender # same_props_events @ DoRender # [])) ! 0
   = snd (run probe (construct SimpleState (fmap_of_list [(''other'', Num 1)]) Undefined)
          ([] @ DoRender # same_props_events @ DoRender # [])) ! 1"
proof -
  have nr: "filter is_render same_props_events = []" by (simp add: same_props_events_def)
  have ns: "filter is_setState same_props_events = []" by (simp add: same_props_events_def)
  have op: "otherProps (props (fst (run probe
                (fst (run probe (construct SimpleState (fmap_of_list [(''other'', Num 1)]) Undefined) []))
                same_props_events)))
            = otherProps (props (fst (run probe
                (construct SimpleState (fmap_of_list [(''other'', Num 1)]) Undefined) [])))"
    by (simp add: same_props_events_def construct_simps otherProps_def fmdrop_fmupd)
  show ?thesis
    using consecutive_renders_equal [OF nr ns op, of "[]"] by simp
qed

text \<open>
  C8 as stated fails when the parent hands the instance new props between the two renders:
  no state update happens, and the payload of the second render holds the new value of
  the passed-through property \<open>other\<close>.
\<close>

theorem consecutive_renders_new_props_counterexample:
  "filter is_setState changed_props_events = []
   \<and> length (snd (run probe (construct StateProvider (fmap_of_list [(''other'', Num 1)]) Undefined)
        changed_props_events)) = 2
   \<and> snd (run probe (construct StateProvider (fmap_of_list [(''other'', Num 1)]) Undefined)
        changed_props_events) ! 0
     \<noteq> snd (run probe (construct StateProvider (fmap_of_list [(''other'', Num 1)]) Undefined)
        changed_props_events) ! 1"
proof -
  have "payload (construct StateProvider (fmap_of_list [(''other'', Num 1)]) Undefined)
        \<noteq> payload ((construct StateProvider (fmap_of_list [(''other'', Num 1)]) Undefined)
             \<lparr> props := fmap_of_list [(''other'', Num 2)] \<rparr>)"
    by (rule fmap_neqI [of _ "''other''"])
       (simp add: payload_def otherProps_def construct_simps js_or_def js_get_def
          StateProvider_def)
  then show ?thesis
    by (simp add: changed_props_events_def)
qed

section \<open>State updates\<close>

lemma reducer_get_unrecognized:
  "ty \<noteq> ''foo:update'' \<Longrightarrow> ty \<noteq> ''bar:inc'' \<Longrightarrow> ty \<noteq> ''bar:dec'' \<Longrightarrow> ty \<noteq> ''__proto__''
   \<Longrightarrow> ty \<notin> set object_prototype_methods \<Longrightarrow> reducer_get ty = Undefined"
  by (simp add: reducer_get_def reducer_def)

lemma setState_obj:
  "state i = Obj s \<Longrightarrow> setState app i (Obj p) = Inr (i\<lparr> state := Obj (s ++\<^sub>f p) \<rparr>)"
  by (simp add: setState_def merge_state_def)

lemma setState_empty:
  "state i = Obj s \<Longrightarrow> setState app i (Obj fmempty) = Inr i"
  by (simp add: setState_def merge_state_def)

text \<open>
  C7: for an instance whose state is an object, a state update with a partial state is a
  shallow merge: the keys of the partial state take its values and every other key keeps
  its value; with \<open>{k: v}\<close>, key \<open>k\<close> maps to \<open>v\<close> afterwards and nothing else changes. An
  empty merge leaves the instance as it was, and that is what \<open>Reducer\<close>'s \<open>action\<close> does
  for a type of which the table \<open>reducer\<close> holds nothing, own or inherited.
\<close>

theorem setState_shallow_merge:
  "state i = Obj s \<Longrightarrow>
     setState app i (Obj p) = Inr (i\<lparr> state := Obj (s ++\<^sub>f p) \<rparr>)
     \<and> fmlookup (s ++\<^sub>f p) k' = (case fmlookup p k' of Some w \<Rightarrow> Some w | None \<Rightarrow> fmlookup s k')
     \<and> setState app i (Obj (fmupd k v fmempty)) = Inr (i\<lparr> state := Obj (fmupd k v s) \<rparr>)
     \<and> fmlookup (fmupd k v s) k = Some v
     \<and> (k' \<noteq> k \<longrightarrow> fmlookup (fmupd k v s) k' = fmlookup s k')
     \<and> setState app i (Obj fmempty) = Inr i
     \<and> (\<not> truthy (reducer_get ty) \<longrightarrow> action app i ty pl = Inr i)
     \<and> (ty \<noteq> ''foo:update'' \<longrightarrow> ty \<noteq> ''bar:inc'' \<longrightarrow> ty \<noteq> ''bar:dec'' \<longrightarrow> ty \<noteq> ''__proto__''
          \<longrightarrow> ty \<notin> set object_prototype_methods \<longrightarrow> action app i ty pl = Inr i)"
proof -
  assume st: "state i = Obj s"
  have un: "action app i ty pl = Inr i" if "\<not> truthy (reducer_get ty)"
    using that setState_empty [OF st] by (simp add: action_def)
  have un': "action app i ty pl = Inr i"
    if "ty \<noteq> ''foo:update''" "ty \<noteq> ''bar:inc''" "ty \<noteq> ''bar:dec''" "ty \<noteq> ''__proto__''"
       "ty \<notin> set object_prototype_methods"
    using un reducer_get_unrecognized [OF that] by simp
  have kv: "setState app i (Obj (fmupd k v fmempty)) = Inr (i\<lparr> state := Obj (fmupd k v s) \<rparr>)"
    using setState_obj [OF st, of app "fmupd k v fmempty"] by simp
  show ?thesis
    using setState_obj [OF st] setState_empty [OF st] un un' kv fmlookup_add_case [of s p k']
    by simp
qed

theorem setState_shallow_merge_witness:
  "state reducer_instance = Obj (fmap_of_list [(''foo'', Str []), (''bar'', Num 0)])
   \<and> setState probe reducer_instance (Obj (fmupd ''bar'' (Num 1) fmempty))
       = Inr (reducer_instance\<lparr> state :=
               Obj (fmupd ''bar'' (Num 1) (fmap_of_list [(''foo'', Str []), (''bar'', Num 0)])) \<rparr>)
   \<and> fmlookup (fmupd ''bar'' (Num 1) (fmap_of_list [(''foo'', Str []), (''bar'', Num 0)])) ''foo''
       = Some (Str [])
   \<and> action probe reducer_instance ''baz:unknown'' Null = Inr reducer_instance"
proof -
  have st: "state reducer_instance = Obj (fmap_of_list [(''foo'', Str []), (''bar'', Num 0)])"
    by (simp add: reducer_instance_def construct_simps js_or_def js_get_def)
  have ty: "''baz:unknown'' \<notin> set object_prototype_methods"
    by (simp add: object_prototype_methods_def)
  show ?thesis
    using st ty setState_shallow_merge [OF st, of probe fmempty "''foo''" "''bar''" "Num 1"
        "''baz:unknown''" Null]
    by simp
qed

section \<open>Composition\<close>

text \<open>
  C9: the guard of \<open>withRender\<close> tests the second argument for falsiness, not for absence:
  called with \<open>null\<close>, \<open>false\<close>, \<open>0\<close>, the empty string or any other falsy value it returns
  the bound function \<open>withRender.bind(undefined, Container)\<close>, the same as the
  one-argument call returns, and no composed component.
\<close>

theorem withRender_falsy_presenter:
  "(\<not> truthy p \<longrightarrow> withRender nm C p = Bound C \<and> withRender nm C p = withRender nm C Undefined)
   \<and> withRender nm C Undefined = Bound C
   \<and> withRender nm C Null = withRender nm C Undefined
   \<and> withRender nm C (Bool False) = withRender nm C Undefined
   \<and> withRender nm C (Num 0) = withRender nm C Undefined
   \<and> withRender nm C (Str []) = withRender nm C Undefined
   \<and> apply_closure nm (withRender nm C Null) q = apply_closure nm (withRender nm C Undefined) q"
  by (simp add: withRender_def)

theorem withRender_falsy_presenter_witness:
  "withRender no_name SimpleState NaN = Bound SimpleState
   \<and> withRender no_name SimpleState NaN = withRender no_name SimpleState Undefined"
  using withRender_falsy_presenter [of NaN no_name SimpleState Undefined]
  by simp

text \<open>
  C6: \<open>withRender(Container)\<close> returns a function, the bound \<open>withRender\<close>; applied to a
  presenter it returns what \<open>withRender(Container, Presenter)\<close> returns, so whatever the
  input properties, the two composed components render the same.
\<close>

theorem withRender_curried:
  "withRender nm C Undefined = Bound C
   \<and> apply_closure nm (withRender nm C Undefined) P = RClosure (withRender nm C P)
   \<and> (truthy P \<longrightarrow>
        (\<exists>d. apply_closure nm (withRender nm C Undefined) P = RClosure (Combined C P d)))
   \<and> (\<forall>f. apply_closure nm (withRender nm C Undefined) P = RClosure f \<longrightarrow>
        f = withRender nm C P
        \<and> (\<forall>ps ctx. render_result app ctx (apply_closure nm f ps)
                    = render_result app ctx (apply_closure nm (withRender nm C P) ps)))"
  by (simp add: withRender_def)

theorem withRender_curried_witness:
  "apply_closure no_name (withRender no_name SimpleState Undefined) (Fun (Ref 1))
     = RClosure (Combined SimpleState (Fun (Ref 1)) ''SimpleState()'')
   \<and> withRender no_name SimpleState (Fun (Ref 1))
     = Combined SimpleState (Fun (Ref 1)) ''SimpleState()''"
  using withRender_curried [of no_name SimpleState "Fun (Ref 1)" probe]
  by (simp add: withRender_def no_name_def SimpleState_def)

lemma createElement_simps:
  "el_type (createElement C m) = C"
  "fmlookup (el_props (createElement C m)) k
     = (if k \<in> set reserved_props then None else fmlookup m k)"
  by (simp_all add: createElement_def)

lemma reserved_props_simps:
  "''children'' \<notin> set reserved_props"
  "''render'' \<notin> set reserved_props"
  "''initialState'' \<notin> set reserved_props"
  by (simp_all add: reserved_props_def)

lemma render_agree:
  assumes ag: "\<And>k. k \<noteq> ''render'' \<Longrightarrow> fmlookup p1 k = fmlookup p2 k"
    and ch: "truthy (js_get p1 ''children'')"
  shows "render app (construct C p1 ctx) = render app (construct C p2 ctx)"
proof -
  have op: "otherProps p1 = otherProps p2"
    by (rule fmap_ext) (simp add: fmlookup_otherProps ag)
  have c: "js_get p1 ''children'' = js_get p2 ''children''"
    by (simp add: js_get_def ag)
  have s: "js_get p1 ''initialState'' = js_get p2 ''initialState''"
    by (simp add: js_get_def ag)
  have pl: "payload (construct C p1 ctx) = payload (construct C p2 ctx)"
    by (simp add: payload_def construct_simps op s)
  show ?thesis
    using ch c pl by (simp add: render_children construct_simps)
qed

text \<open>
  C2, as amended: the component composed from a container and a presenter constructs the
  container with the props of the element \<open>React.createElement(Container,
  {render: Presenter, ...inputProps})\<close>. Its \<open>render\<close> prop is the presenter when the input
  properties have no \<open>render\<close> key and the input's own \<open>render\<close> value when they have one;
  every other property is passed through, but for the names the host reserves (\<open>key\<close>,
  \<open>ref\<close>, \<open>__self\<close>, \<open>__source\<close>), which never reach the container. When the input has no
  \<open>render\<close> key, or has a truthy \<open>children\<close> (which is the rendering target either way), the
  component renders as the element written by hand with \<open>render\<close> forced to the presenter,
  \<open><Container {...inputProps} render={Presenter} />\<close>, does.
\<close>

theorem withRender_composed_element:
  "truthy P \<Longrightarrow>
     apply_closure nm (withRender nm C P) a
       = RElement (createElement C (fmupd ''render'' P fmempty ++\<^sub>f own_props a))
     \<and> el_type (createElement C (fmupd ''render'' P fmempty ++\<^sub>f own_props a)) = C
     \<and> fmlookup (el_props (createElement C (fmupd ''render'' P fmempty ++\<^sub>f own_props a))) ''render''
         = (case fmlookup (own_props a) ''render'' of Some r \<Rightarrow> Some r | None \<Rightarrow> Some P)
     \<and> (\<forall>k. k \<noteq> ''render'' \<longrightarrow> k \<notin> set reserved_props \<longrightarrow>
           fmlookup (el_props (createElement C (fmupd ''render'' P fmempty ++\<^sub>f own_props a))) k
             = fmlookup (own_props a) k)
     \<and> (\<forall>k. k \<in> set reserved_props \<longrightarrow>
           fmlookup (el_props (createElement C (fmupd ''render'' P fmempty ++\<^sub>f own_props a))) k
             = None)
     \<and> (fmlookup (own_props a) ''render'' = None \<or> truthy (js_get (own_props a) ''children'') \<longrightarrow>
           render_result app ctx (apply_closure nm (withRender nm C P) a)
             = Some (mount app (createElement C (fmupd ''render'' P (own_props a))) ctx))"
proof -
  assume P: "truthy P"
  let ?m = "own_props a"
  let ?cfg = "fmupd ''render'' P fmempty ++\<^sub>f ?m"
  have el: "apply_closure nm (withRender nm C P) a = RElement (createElement C ?cfg)"
    using P by (simp add: withRender_def)
  have same: "mount app (createElement C ?cfg) ctx
                = mount app (createElement C (fmupd ''render'' P ?m)) ctx"
    if h: "fmlookup ?m ''render'' = None \<or> truthy (js_get ?m ''children'')"
  proof (cases "fmlookup ?m ''render'' = None")
    case True
    then show ?thesis by (simp add: composed_props_forced)
  next
    case False
    have ch: "truthy (js_get ?m ''children'')" using h False by auto
    have c1: "js_get (el_props (createElement C ?cfg)) ''children'' = js_get ?m ''children''"
      by (simp add: js_get_def createElement_simps reserved_props_simps composed_props_lookup
            del: fmlookup_add)
    have ag: "fmlookup (el_props (createElement C ?cfg)) k
                = fmlookup (el_props (createElement C (fmupd ''render'' P ?m))) k"
      if "k \<noteq> ''render''" for k
      using that by (simp add: createElement_simps composed_props_lookup del: fmlookup_add)
    show ?thesis
      unfolding mount_def createElement_simps
      by (rule render_agree) (simp_all add: ag c1 ch)
  qed
  show ?thesis
    using el same
    by (simp add: createElement_simps reserved_props_simps composed_props_lookup
          del: fmlookup_add)
qed

theorem withRender_composed_element_witness:
  "truthy (Fun (Ref 1))
   \<and> fmlookup (own_props keyed_props) ''render'' = None
   \<and> fmlookup (el_props (createElement SimpleState
         (fmupd ''render'' (Fun (Ref 1)) fmempty ++\<^sub>f own_props keyed_props))) ''render''
       = Some (Fun (Ref 1))
   \<and> fmlookup (el_props (createElement SimpleState
         (fmupd ''render'' (Fun (Ref 1)) fmempty ++\<^sub>f own_props keyed_props))) ''other''
       = Some (Num 1)
   \<and> fmlookup (el_props (createElement SimpleState
         (fmupd ''render'' (Fun (Ref 1)) fmempty ++\<^sub>f own_props keyed_props))) ''key''
       = None
   \<and> render_result probe Undefined
        (apply_closure no_name (withRender no_name SimpleState (Fun (Ref 1))) keyed_props)
       = Some (mount probe
                 (createElement SimpleState (fmupd ''render'' (Fun (Ref 1)) (own_props keyed_props)))
                 Undefined)"
proof -
  let ?ps = "el_props (createElement SimpleState
         (fmupd ''render'' (Fun (Ref 1)) fmempty ++\<^sub>f own_props keyed_props))"
  have P: "truthy (Fun (Ref 1))" by simp
  have n: "fmlookup (own_props keyed_props) ''render'' = None"
    by (simp add: keyed_props_def)
  have o: "fmlookup (own_props keyed_props) ''other'' = Some (Num 1)"
    by (simp add: keyed_props_def)
  have r: "''key'' \<in> set reserved_props" "''other'' \<notin> set reserved_props"
    by (simp_all add: reserved_props_def)
  note t = withRender_composed_element [OF P, of no_name SimpleState keyed_props probe Undefined]
  have t3: "fmlookup ?ps ''render''
      = (case fmlookup (own_props keyed_props) ''render'' of Some r \<Rightarrow> Some r
         | None \<Rightarrow> Some (Fun (Ref 1)))"
    using t by (elim conjE)
  have t4: "\<forall>k. k \<noteq> ''render'' \<longrightarrow> k \<notin> set reserved_props \<longrightarrow>
              fmlookup ?ps k = fmlookup (own_props keyed_props) k"
    using t by (elim conjE)
  have t5: "\<forall>k. k \<in> set reserved_props \<longrightarrow> fmlookup ?ps k = None"
    using t by (elim conjE)
  have t6: "fmlookup (own_props keyed_props) ''render'' = None
              \<or> truthy (js_get (own_props keyed_props) ''children'') \<longrightarrow>
            render_result probe Undefined
              (apply_closure no_name (withRender no_name SimpleState (Fun (Ref 1))) keyed_props)
            = Some (mount probe
                 (createElement SimpleState (fmupd ''render'' (Fun (Ref 1)) (own_props keyed_props)))
                 Undefined)"
    using t by (elim conjE)
  have w3: "fmlookup ?ps ''render'' = Some (Fun (Ref 1))" using t3 n by simp
  have w4: "fmlookup ?ps ''other'' = Some (Num 1)" using t4 r(2) o by simp
  have w5: "fmlookup ?ps ''key'' = None" using t5 r(1) by simp
  have w6: "render_result probe Undefined
              (apply_closure no_name (withRender no_name SimpleState (Fun (Ref 1))) keyed_props)
            = Some (mount probe
                 (createElement SimpleState (fmupd ''render'' (Fun (Ref 1)) (own_props keyed_props)))
                 Undefined)"
    using t6 n by simp
  show ?thesis using P n w3 w4 w5 w6 by (intro conjI)
qed

text \<open>
  C2 as stated fails when the input properties hold a \<open>render\<close> of their own: the spread
  comes after \<open>render={Presenter}\<close>, so the container is constructed with the caller's
  \<open>render\<close> (here the function 2), which is its rendering target, and not with the
  presenter (the function 1); the result differs from that of the container constructed
  with \<open>render\<close> forced to the presenter.
\<close>

theorem withRender_presenter_wins_counterexample:
  "apply_closure no_name (withRender no_name StateProvider (Fun (Ref 1))) caller_render
     = RElement (createElement StateProvider
         (fmupd ''render'' (Fun (Ref 1)) fmempty ++\<^sub>f own_props caller_render))
   \<and> fmlookup (el_props (createElement StateProvider
         (fmupd ''render'' (Fun (Ref 1)) fmempty ++\<^sub>f own_props caller_render))) ''render''
       = Some (Fun (Ref 2))
   \<and> renderer (construct StateProvider (el_props (createElement StateProvider
         (fmupd ''render'' (Fun (Ref 1)) fmempty ++\<^sub>f own_props caller_render))) Undefined)
       = Fun (Ref 2)
   \<and> Fun (Ref 2) \<noteq> Fun (Ref 1)
   \<and> render_result probe Undefined
        (apply_closure no_name (withRender no_name StateProvider (Fun (Ref 1))) caller_render)
       \<noteq> Some (mount probe (createElement StateProvider
                  (fmupd ''render'' (Fun (Ref 1)) (own_props caller_render))) Undefined)"
proof -
  let ?cfg = "fmupd ''render'' (Fun (Ref 1)) fmempty ++\<^sub>f own_props caller_render"
  have a: "apply_closure no_name (withRender no_name StateProvider (Fun (Ref 1))) caller_render
     = RElement (createElement StateProvider ?cfg)"
    by (simp add: withRender_def)
  have l: "fmlookup (el_props (createElement StateProvider ?cfg)) ''render'' = Some (Fun (Ref 2))"
    by (simp add: createElement_simps reserved_props_simps caller_render_def)
  have lc: "fmlookup (el_props (createElement StateProvider ?cfg)) ''children'' = None"
    by (simp add: createElement_simps reserved_props_simps caller_render_def)
  have b: "renderer (construct StateProvider (el_props (createElement StateProvider ?cfg)) Undefined)
       = Fun (Ref 2)"
    by (simp only: renderer_def construct_simps js_or_def js_get_def l lc) simp
  have l2: "fmlookup (el_props (createElement StateProvider
              (fmupd ''render'' (Fun (Ref 1)) (own_props caller_render)))) ''render''
            = Some (Fun (Ref 1))"
    by (simp add: createElement_simps reserved_props_simps)
  have lc2: "fmlookup (el_props (createElement StateProvider
              (fmupd ''render'' (Fun (Ref 1)) (own_props caller_render)))) ''children'' = None"
    by (simp add: createElement_simps reserved_props_simps caller_render_def)
  have b2: "renderer (construct StateProvider (el_props (createElement StateProvider
              (fmupd ''render'' (Fun (Ref 1)) (own_props caller_render)))) Undefined)
       = Fun (Ref 1)"
    by (simp only: renderer_def construct_simps js_or_def js_get_def l2 lc2) simp
  have c: "mount probe (createElement StateProvider ?cfg) Undefined
           \<noteq> mount probe (createElement StateProvider
                  (fmupd ''render'' (Fun (Ref 1)) (own_props caller_render))) Undefined"
    unfolding mount_def render_def createElement_simps b b2
    apply (simp add: call_def probe_def)
    apply (rule fmap_neqI [of _ "''callee''"])
    apply simp
    done
  show ?thesis using a l b c by simp
qed

text \<open>
  C10: a truthy \<open>children\<close> among the input properties of a composed component overrides
  the presenter bound at composition: the container's rendering target is the caller's
  \<open>children\<close>, and it is what the render calls.
\<close>

theorem composed_children_override:
  "truthy P \<Longrightarrow> fmlookup (own_props a) ''children'' = Some ch \<Longrightarrow> truthy ch \<Longrightarrow>
     apply_closure nm (withRender nm C P) a
       = RElement (createElement C (fmupd ''render'' P fmempty ++\<^sub>f own_props a))
     \<and> renderer (construct C
         (el_props (createElement C (fmupd ''render'' P fmempty ++\<^sub>f own_props a))) ctx) = ch
     \<and> render_result app ctx (apply_closure nm (withRender nm C P) a)
         = Some (call app ch
             [Obj (payload (construct C
                (el_props (createElement C (fmupd ''render'' P fmempty ++\<^sub>f own_props a))) ctx)),
              ctx])"
  by (simp add: withRender_def mount_def render_def renderer_def construct_simps js_or_def
        js_get_def createElement_simps reserved_props_simps composed_props_lookup
        del: fmlookup_add)

theorem composed_children_override_witness:
  "render_result probe Undefined
     (apply_closure no_name (withRender no_name StateProvider (Fun (Ref 1)))
        (Obj (fmap_of_list [(''children'', Fun (Ref 3))])))
   = Some (Inr (Obj (fmap_of_list [(''callee'', Fun (Ref 3)), (''arg'', Obj fmempty)])))"
proof -
  let ?a = "Obj (fmap_of_list [(''children'', Fun (Ref 3))])"
  have P: "truthy (Fun (Ref 1))" by simp
  have c: "fmlookup (own_props ?a) ''children'' = Some (Fun (Ref 3))" by simp
  have tc: "truthy (Fun (Ref 3))" by simp
  have e: "payload (construct StateProvider (el_props (createElement StateProvider
             (fmupd ''render'' (Fun (Ref 1)) fmempty ++\<^sub>f own_props ?a))) Undefined)
           = fmempty"
    by (rule fmap_ext)
       (simp add: payload_def construct_simps fmlookup_otherProps createElement_simps
          js_or_def js_get_def reserved_props_simps StateProvider_def)
  have "render_result probe Undefined
          (apply_closure no_name (withRender no_name StateProvider (Fun (Ref 1))) ?a)
        = Some (call probe (Fun (Ref 3))
            [Obj (payload (construct StateProvider (el_props (createElement StateProvider
               (fmupd ''render'' (Fun (Ref 1)) fmempty ++\<^sub>f own_props ?a))) Undefined)),
             Undefined])"
    using composed_children_override [OF P c tc, of no_name StateProvider Undefined probe]
    by (elim conjE)
  then show ?thesis
    unfolding e by (simp add: call_def probe_def)
qed

end
